theory Spec2Isabelle
  imports Complex_Main "HOL-Library.Char_ord"
begin

section \<open>Values and exceptions\<close>

text \<open>
  The program of \<^verbatim>\<open>src/main.py\<close> handles the values that \<^verbatim>\<open>response.json()\<close>
  returns: Python's \<^verbatim>\<open>None\<close>, booleans, integers, floats, strings, lists and
  dictionaries with string keys. A dictionary is an association list whose first
  binding of a key is the one a lookup sees. The only operation the program applies to a
  float is the truth test, so a float is represented by a real number (a non-finite
  float by any non-zero one). A string is represented by the bytes of its UTF-8
  encoding; a lone surrogate, which a Python string may hold and UTF-8 proper does not
  encode, by the three bytes \<^verbatim>\<open>ED A0 80\<close> to \<^verbatim>\<open>ED BF BF\<close> that the
  \<^verbatim>\<open>surrogatepass\<close> handler gives it. The operations of the program look for ASCII
  characters only, which never occur inside the bytes of another character.
\<close>

datatype json =
    JNull
  | JBool bool
  | JInt int
  | JFloat real
  | JStr string
  | JList "json list"
  | JObj "(string \<times> json) list"

text \<open>
  The exception classes the program can raise, named as in Python. The classes of
  \<^verbatim>\<open>configparser\<close> (\<open>NoSectionError\<close>, \<open>NoOptionError\<close>, the interpolation errors and
  \<open>ParsingError\<close>, which stands for every exception of \<^verbatim>\<open>ConfigParser.read\<close>) derive
  from \<^verbatim>\<open>configparser.Error\<close>, a direct subclass of \<^verbatim>\<open>Exception\<close>;
  \<open>RequestException\<close> stands for the exceptions of \<^verbatim>\<open>requests\<close> raised before a
  response exists; \<open>OSError\<close> carries the text of its error number.
\<close>

datatype exn =
    FileNotFoundError string
  | KeyError string
  | NoSectionError string
  | NoOptionError string string
  | InterpolationSyntaxError
  | InterpolationMissingOptionError
  | InterpolationDepthError
  | ParsingError
  | RequestException
  | HTTPError string
  | JSONDecodeError
  | ValueError string
  | AttributeError
  | IndexError
  | TypeError
  | FileExistsError
  | NotADirectoryError
  | IsADirectoryError
  | UnicodeEncodeError
  | OSError string

text \<open>\<^verbatim>\<open>isinstance(e, KeyError)\<close>, the test of an \<^verbatim>\<open>except KeyError\<close> clause.\<close>

fun is_KeyError :: "exn \<Rightarrow> bool" where
  "is_KeyError (KeyError _) = True"
| "is_KeyError _ = False"

subsection \<open>Python operations on values\<close>

text \<open>The truth value of \<^verbatim>\<open>not x\<close> is the negation of this.\<close>

fun truthy :: "json \<Rightarrow> bool" where
  "truthy JNull = False"
| "truthy (JBool b) = b"
| "truthy (JInt i) = (i \<noteq> 0)"
| "truthy (JFloat r) = (r \<noteq> 0)"
| "truthy (JStr s) = (s \<noteq> [])"
| "truthy (JList xs) = (xs \<noteq> [])"
| "truthy (JObj kvs) = (kvs \<noteq> [])"

text \<open>\<^verbatim>\<open>x.get(key)\<close>: only a dictionary has the method; a missing key gives \<^verbatim>\<open>None\<close>.\<close>

fun py_get :: "json \<Rightarrow> string \<Rightarrow> exn + json" where
  "py_get (JObj kvs) key = Inr (case map_of kvs key of None \<Rightarrow> JNull | Some v \<Rightarrow> v)"
| "py_get _ key = Inl AttributeError"

text \<open>
  \<^verbatim>\<open>x[-1]\<close>: the last element of a list, the last character of a string (its last
  byte here: the program calls \<^verbatim>\<open>.get\<close> on it, which no string has), the key
  \<^verbatim>\<open>-1\<close> of a dictionary (never present among string keys); the other values are not
  subscriptable.
\<close>

fun py_last :: "json \<Rightarrow> exn + json" where
  "py_last (JList xs) = (if xs = [] then Inl IndexError else Inr (last xs))"
| "py_last (JStr s) = (if s = [] then Inl IndexError else Inr (JStr [last s]))"
| "py_last (JObj kvs) = Inl (KeyError ''-1'')"
| "py_last _ = Inl TypeError"

text \<open>\<^verbatim>\<open>s.split(sep)\<close> on a string, for a separator of one character.\<close>

fun split :: "char \<Rightarrow> string \<Rightarrow> string list" where
  "split c [] = [[]]"
| "split c (x # xs) =
     (if x = c then [] # split c xs
      else (case split c xs of [] \<Rightarrow> [[x]] | y # ys \<Rightarrow> (x # y) # ys))"

fun py_split :: "json \<Rightarrow> char \<Rightarrow> exn + string list" where
  "py_split (JStr s) c = Inr (split c s)"
| "py_split _ c = Inl AttributeError"

text \<open>\<^verbatim>\<open>xs[-2]\<close> on a list of strings.\<close>

definition py_index_neg2 :: "string list \<Rightarrow> exn + string" where
  "py_index_neg2 xs =
     (if length xs < 2 then Inl IndexError else Inr (xs ! (length xs - 2)))"

text \<open>The decimal rendering of an integer, as \<^verbatim>\<open>f"{n}"\<close> gives it.\<close>

fun str_nat :: "nat \<Rightarrow> string" where
  "str_nat n =
     (if n < 10 then [''0123456789'' ! n]
      else str_nat (n div 10) @ [''0123456789'' ! (n mod 10)])"

definition str_int :: "int \<Rightarrow> string" where
  "str_int i = (if i < 0 then CHR ''-'' # str_nat (nat (- i)) else str_nat (nat i))"

text \<open>
  The interpreter refuses to render an integer of more digits than its limit
  \<^verbatim>\<open>sys.get_int_max_str_digits()\<close>, when that is not 0; the sign does not count.
\<close>

definition int_digits_message :: "nat \<Rightarrow> string" where
  "int_digits_message digits =
     ''Exceeds the limit ('' @ str_nat digits @ '' digits) for integer string conversion; ''
     @ ''use sys.set_int_max_str_digits() to increase the limit''"

definition format_int :: "nat \<Rightarrow> int \<Rightarrow> exn + string" where
  "format_int digits i =
     (if digits \<noteq> 0 \<and> digits < length (str_nat (nat \<bar>i\<bar>))
      then Inl (ValueError (int_digits_message digits))
      else Inr (str_int i))"

section \<open>The world outside the process\<close>

text \<open>
  A path of the file system holds nothing, a directory or a regular file. A file that
  \<^verbatim>\<open>json.dump\<close> wrote holds the serialisation of a value, represented by the value.
  Paths are the byte strings the system has. The model covers which paths exist and of
  what kind they are, which names \<^verbatim>\<open>open\<close> refuses, and the limits of the system on
  the length of a name and of a path; permissions and capacity are not modelled.
\<close>

datatype content = Raw string | Dumped json

datatype node = Dir | File content

text \<open>
  What \<^verbatim>\<open>ConfigParser.read\<close> holds after a file is parsed: the options of the
  \<open>DEFAULT\<close> section and those of each other section, with the keys in lower case.
\<close>

record ini =
  defaults :: "(string \<times> string) list"
  sections :: "(string \<times> (string \<times> string) list) list"

text \<open>
  What is at \<^verbatim>\<open>config/api.conf\<close> when it exists: something that cannot be opened for
  reading (a directory, a file without read permission), a text the parser rejects, or a
  text the parser accepts.
\<close>

datatype conf_node = ConfUnreadable | ConfMalformed | ConfParsed ini

datatype log_entry =
    LogNoMorePages
  | LogFetchingNext json
  | LogError exn

text \<open>The date of the clock of the process.\<close>

record date =
  year :: nat
  month :: nat
  day :: nat

text \<open>
  The world: what is at \<^verbatim>\<open>config/api.conf\<close>, the paths under the working directory,
  the working directory, the clock, the limits \<^verbatim>\<open>NAME_MAX\<close> and \<^verbatim>\<open>PATH_MAX\<close> of the
  system (255 and 4096 on Linux), the limit \<^verbatim>\<open>sys.get_int_max_str_digits()\<close> of the
  interpreter (4300 unless set otherwise, 0 for none), the addresses requested so far and
  the log.
\<close>

record world =
  conf :: "conf_node option"
  nodes :: "string \<rightharpoonup> node"
  cwd :: string
  now :: date
  name_max :: nat
  path_max :: nat
  int_max_str_digits :: nat
  requests :: "string list"
  logs :: "log_entry list"

text \<open>
  \<^verbatim>\<open>datetime.now().strftime("%Y-%m-%d")\<close>: month and day have two digits; the year is
  printed as the C library prints it, glibc without padding (every year from 1000 on
  has its four digits).
\<close>

definition pad2 :: "nat \<Rightarrow> string" where
  "pad2 n = (if n < 10 then CHR ''0'' # str_nat n else str_nat n)"

definition strftime_Y_m_d :: "date \<Rightarrow> string" where
  "strftime_Y_m_d d = str_nat (year d) @ ''-'' @ pad2 (month d) @ ''-'' @ pad2 (day d)"

definition today :: "world \<Rightarrow> string" where
  "today w = strftime_Y_m_d (now w)"

text \<open>
  \<^verbatim>\<open>os.fsencode\<close>, which every file operation applies to a name, for the UTF-8 file
  system encoding with the \<^verbatim>\<open>surrogateescape\<close> handler: the surrogates U+DC80 to
  U+DCFF (\<^verbatim>\<open>ED B2 80\<close> to \<^verbatim>\<open>ED B3 BF\<close>) stand for the single bytes 80 to FF, every
  other surrogate raises \<open>UnicodeEncodeError\<close>, and every other character keeps its
  bytes.
\<close>

definition surrogate :: "char \<Rightarrow> char \<Rightarrow> bool" where
  "surrogate c d = (c = CHR 0xED \<and> CHR 0xA0 \<le> d \<and> d \<le> CHR 0xBF)"

definition escape :: "char \<Rightarrow> bool" where
  "escape d = (d = CHR 0xB2 \<or> d = CHR 0xB3)"

fun unencodable :: "string \<Rightarrow> bool" where
  "unencodable (c # d # s) =
     (if surrogate c d then \<not> escape d \<or> unencodable s else unencodable (d # s))"
| "unencodable s = False"

fun fsbytes :: "string \<Rightarrow> string" where
  "fsbytes (c # d # e # s) =
     (if surrogate c d \<and> escape d
      then (if d = CHR 0xB3 then char_of (of_char e + (64::nat)) else e) # fsbytes s
      else c # fsbytes (d # e # s))"
| "fsbytes s = s"

definition fsencode :: "string \<Rightarrow> exn + string" where
  "fsencode s = (if unencodable s then Inl UnicodeEncodeError else Inr (fsbytes s))"

text \<open>\<^verbatim>\<open>Path(p) / c\<close> rendered as a string.\<close>

definition path_join :: "string \<Rightarrow> string \<Rightarrow> string" where
  "path_join p c = (if p = ''/'' then p @ c else p @ ''/'' @ c)"

text \<open>
  \<^verbatim>\<open>folder.mkdir(parents=True, exist_ok=True)\<close> for a folder directly under
  \<open>parent\<close>, itself directly under the working directory: an existing directory is
  accepted, a regular file in the way is an error, and a missing parent is created first.
  The system refuses a path of \<^verbatim>\<open>PATH_MAX\<close> bytes or more (\<^verbatim>\<open>ENAMETOOLONG\<close>); the
  names \<^verbatim>\<open>data\<close> and of the date are within \<^verbatim>\<open>NAME_MAX\<close>, which is 14 at least on
  every POSIX system.
\<close>

definition mkdir_parents :: "world \<Rightarrow> string \<Rightarrow> string \<Rightarrow> exn + world" where
  "mkdir_parents w parent folder =
     (if path_max w \<le> length folder then Inl (OSError ''File name too long'')
      else
        (case nodes w folder of
           Some Dir \<Rightarrow> Inr w
         | Some (File _) \<Rightarrow> Inl FileExistsError
         | None \<Rightarrow>
             (case nodes w parent of
                Some Dir \<Rightarrow> Inr (w\<lparr>nodes := (nodes w)(folder \<mapsto> Dir)\<rparr>)
              | Some (File _) \<Rightarrow> Inl NotADirectoryError
              | None \<Rightarrow> Inr (w\<lparr>nodes := (nodes w)(parent \<mapsto> Dir, folder \<mapsto> Dir)\<rparr>))))"

text \<open>
  \<^verbatim>\<open>open(path, 'w')\<close> for the path of a name in an existing folder. The name is
  encoded first; a name with a NUL byte is refused by Python, a name longer than
  \<^verbatim>\<open>NAME_MAX\<close> or a path of \<^verbatim>\<open>PATH_MAX\<close> bytes or more by the system
  (\<^verbatim>\<open>ENAMETOOLONG\<close>); a directory cannot be opened; a missing file is created and an
  existing one is truncated.
\<close>

definition open_w :: "world \<Rightarrow> string \<Rightarrow> string \<Rightarrow> exn + world" where
  "open_w w folder name =
     (case fsencode name of
        Inl e \<Rightarrow> Inl e
      | Inr bytes \<Rightarrow>
          if CHR 0x00 \<in> set bytes then Inl (ValueError ''embedded null byte'')
          else if name_max w < length bytes \<or> path_max w \<le> length (folder @ ''/'' @ bytes)
          then Inl (OSError ''File name too long'')
          else
            (case nodes w (folder @ ''/'' @ bytes) of
               Some Dir \<Rightarrow> Inl IsADirectoryError
             | _ \<Rightarrow> Inr (w\<lparr>nodes := (nodes w)(folder @ ''/'' @ bytes \<mapsto> File (Raw []))\<rparr>)))"

text \<open>
  \<^verbatim>\<open>json.dump(v, file)\<close> on the file just opened at \<open>path\<close>. The value is one that
  \<^verbatim>\<open>response.json()\<close> returned, and the serialisation of such a value is taken to
  succeed.
\<close>

definition json_dump :: "world \<Rightarrow> string \<Rightarrow> json \<Rightarrow> world" where
  "json_dump w path v = w\<lparr>nodes := (nodes w)(path \<mapsto> File (Dumped v))\<rparr>"

section \<open>The page writer\<close>

text \<open>
  Lines 86 and 87 of \<^verbatim>\<open>load_data\<close>:
  \<^verbatim>\<open>last_pokemon = data.get("results")[-1]\<close> and
  \<^verbatim>\<open>last_id = last_pokemon.get("url").split("/")[-2]\<close>.
\<close>

definition last_id :: "json \<Rightarrow> exn + string" where
  "last_id data =
     (case py_get data ''results'' of
        Inl e \<Rightarrow> Inl e
      | Inr results \<Rightarrow>
          (case py_last results of
             Inl e \<Rightarrow> Inl e
           | Inr last_pokemon \<Rightarrow>
               (case py_get last_pokemon ''url'' of
                  Inl e \<Rightarrow> Inl e
                | Inr url \<Rightarrow>
                    (case py_split url CHR ''/'' of
                       Inl e \<Rightarrow> Inl e
                     | Inr segments \<Rightarrow> py_index_neg2 segments))))"

definition data_dir :: "world \<Rightarrow> string" where
  "data_dir w = path_join (cwd w) ''data''"

definition folder_path :: "world \<Rightarrow> string" where
  "folder_path w = path_join (data_dir w) (today w)"

text \<open>
  The path of line 89, \<^verbatim>\<open>f"{folder_path}/{last_id}.json"\<close>, as the file system
  receives it: the folder has the bytes of the system already, the name is encoded.
\<close>

definition file_path :: "world \<Rightarrow> string \<Rightarrow> string" where
  "file_path w ident = folder_path w @ ''/'' @ fsbytes (ident @ ''.json'')"

text \<open>The message \<^verbatim>\<open>'results' key is missing or empty in the provided data.\<close>\<close>

definition empty_results_message :: string where
  "empty_results_message =
     [CHR 0x27] @ ''results'' @ [CHR 0x27] @ '' key is missing or empty in the provided data.''"

definition load_data :: "world \<Rightarrow> json \<Rightarrow> world \<times> (exn + unit)" where
  "load_data w data =
     (case mkdir_parents w (data_dir w) (folder_path w) of
        Inl e \<Rightarrow> (w, Inl e)
      | Inr w1 \<Rightarrow>
          (case py_get data ''results'' of
             Inl e \<Rightarrow> (w1, Inl e)
           | Inr results \<Rightarrow>
               if \<not> truthy results
               then (w1, Inl (ValueError empty_results_message))
               else
                 (case last_id data of
                    Inl e \<Rightarrow> (w1, Inl e)
                  | Inr ident \<Rightarrow>
                      (case open_w w1 (folder_path w) (ident @ ''.json'') of
                         Inl e \<Rightarrow> (w1, Inl e)
                       | Inr w2 \<Rightarrow> (json_dump w2 (file_path w ident) results, Inr ())))))"

section \<open>The configuration reader\<close>

text \<open>
  \<^verbatim>\<open>str.lower\<close>, the \<^verbatim>\<open>optionxform\<close> of the parser, on ASCII letters: the option name
  of the program is ASCII, and a name with other capital letters can only come from a
  reference inside a value.
\<close>

definition lower_char :: "char \<Rightarrow> char" where
  "lower_char c =
     (if CHR ''A'' \<le> c \<and> c \<le> CHR ''Z'' then char_of (of_char c + (32::nat)) else c)"

definition lower :: "string \<Rightarrow> string" where
  "lower s = map lower_char s"

definition MAX_INTERPOLATION_DEPTH :: nat where
  "MAX_INTERPOLATION_DEPTH = 10"

text \<open>
  \<^verbatim>\<open>BasicInterpolation._interpolate_some\<close>, the interpolation that
  \<^verbatim>\<open>ConfigParser.get\<close> applies to a value: \<open>%%\<close> stands for a percent sign and
  \<open>%(name)s\<close> for the value of the option \<open>name\<close>, expanded in turn. The function
  checks the depth on entry and then runs its loop over the rest of the value.
\<close>

function interpolate_some :: "(string \<rightharpoonup> string) \<Rightarrow> nat \<Rightarrow> string \<Rightarrow> string \<Rightarrow> exn + string"
  and interpolate_loop :: "(string \<rightharpoonup> string) \<Rightarrow> nat \<Rightarrow> string \<Rightarrow> string \<Rightarrow> exn + string"
where
  "interpolate_some m depth rest accum =
     (if depth > MAX_INTERPOLATION_DEPTH then Inl InterpolationDepthError
      else interpolate_loop m depth rest accum)"
| "interpolate_loop m depth rest accum =
     (if rest = [] then Inr accum
      else if CHR ''%'' \<notin> set rest then Inr (accum @ rest)
      else
        (let accum1 = accum @ takeWhile (\<lambda>c. c \<noteq> CHR ''%'') rest;
             rest1 = dropWhile (\<lambda>c. c \<noteq> CHR ''%'') rest;
             c = take 1 (drop 1 rest1)
         in if c = ''%'' then interpolate_loop m depth (drop 2 rest1) (accum1 @ ''%'')
            else if c = ''('' then
              (let name = takeWhile (\<lambda>c. c \<noteq> CHR '')'') (drop 2 rest1);
                   after = drop (2 + length name) rest1
               in if name = [] \<or> take 2 after \<noteq> '')s'' then Inl InterpolationSyntaxError
                  else
                    (case m (lower name) of
                       None \<Rightarrow> Inl InterpolationMissingOptionError
                     | Some v \<Rightarrow>
                         if CHR ''%'' \<in> set v then
                           (case interpolate_some m (depth + 1) v accum1 of
                              Inl e \<Rightarrow> Inl e
                            | Inr accum2 \<Rightarrow> interpolate_loop m depth (drop 2 after) accum2)
                         else interpolate_loop m depth (drop 2 after) (accum1 @ v)))
            else Inl InterpolationSyntaxError))"
  by pat_completeness auto

termination
proof (relation "measures
    [\<lambda>x. case x of
        Inl (m, depth, rest, accum) \<Rightarrow>
          (if depth > MAX_INTERPOLATION_DEPTH then 0
           else 2 * (MAX_INTERPOLATION_DEPTH + 1 - depth))
      | Inr (m, depth, rest, accum) \<Rightarrow>
          (if depth > MAX_INTERPOLATION_DEPTH then 1
           else 2 * (MAX_INTERPOLATION_DEPTH + 1 - depth) - 1),
     \<lambda>x. case x of
        Inl (m, depth, rest, accum) \<Rightarrow> length rest
      | Inr (m, depth, rest, accum) \<Rightarrow> length rest]", goal_cases)
  case 1
  show ?case by simp
next
  case (2 m depth rest accum)
  then show ?case by auto
next
  case (3 m depth rest accum accum1 rest1 c)
  have "length rest1 \<le> length rest"
    unfolding 3 by (rule length_dropWhile_le)
  moreover have "rest1 \<noteq> []"
    using 3 by auto
  ultimately have "length (drop 2 rest1) < length rest"
    by (cases rest1) auto
  then show ?case by simp
next
  case (4 m depth rest accum accum1 rest1 c name after v)
  then show ?case by (auto simp: MAX_INTERPOLATION_DEPTH_def)
next
  case (5 m depth rest accum accum1 rest1 c name after v accum2)
  have "length rest1 \<le> length rest"
    unfolding 5 by (rule length_dropWhile_le)
  moreover have "rest1 \<noteq> []"
    using 5 by auto
  ultimately have "length (drop 2 after) < length rest"
    unfolding \<open>after = _\<close> by (cases rest1) auto
  then show ?case by simp
next
  case (6 m depth rest accum accum1 rest1 c name after v)
  have "length rest1 \<le> length rest"
    unfolding 6 by (rule length_dropWhile_le)
  moreover have "rest1 \<noteq> []"
    using 6 by auto
  ultimately have "length (drop 2 after) < length rest"
    unfolding \<open>after = _\<close> by (cases rest1) auto
  then show ?case by simp
qed

declare interpolate_some.simps [simp del] interpolate_loop.simps [simp del]

text \<open>
  \<^verbatim>\<open>ConfigParser.get(section, option)\<close>: a section that is not there raises
  \<open>NoSectionError\<close> (unless it is the default section), the option is looked up in the
  section and then in the defaults, a missing option raises \<open>NoOptionError\<close>, and the
  value found is interpolated over the same chain of options.
\<close>

definition config_get :: "ini \<Rightarrow> string \<Rightarrow> string \<Rightarrow> exn + string" where
  "config_get config section option =
     (case (case map_of (sections config) section of
              None \<Rightarrow> if section \<noteq> ''DEFAULT'' then Inl (NoSectionError section) else Inr []
            | Some sectiondict \<Rightarrow> Inr sectiondict) of
        Inl e \<Rightarrow> Inl e
      | Inr sectiondict \<Rightarrow>
          (let d = (\<lambda>k. case map_of sectiondict k of
                            Some v \<Rightarrow> Some v
                          | None \<Rightarrow> map_of (defaults config) k)
           in case d (lower option) of
                None \<Rightarrow> Inl (NoOptionError (lower option) section)
              | Some v \<Rightarrow> interpolate_some d 1 v []))"

text \<open>
  \<^verbatim>\<open>config = ConfigParser(); config.read(config_file)\<close>: a file that cannot be opened
  is skipped silently and leaves the parser empty.
\<close>

fun config_read :: "conf_node \<Rightarrow> exn + ini" where
  "config_read ConfUnreadable = Inr \<lparr>defaults = [], sections = []\<rparr>"
| "config_read ConfMalformed = Inl ParsingError"
| "config_read (ConfParsed config) = Inr config"

text \<open>
  The messages \<^verbatim>\<open>Configuration file 'config/api.conf' not found.\<close> and
  \<^verbatim>\<open>Missing 'api_url' in the 'api' section of the config file.\<close>
\<close>

definition config_not_found_message :: string where
  "config_not_found_message =
     ''Configuration file '' @ [CHR 0x27] @ ''config/api.conf'' @ [CHR 0x27] @ '' not found.''"

definition missing_api_url_message :: string where
  "missing_api_url_message =
     ''Missing '' @ [CHR 0x27] @ ''api_url'' @ [CHR 0x27] @ '' in the '' @ [CHR 0x27] @ ''api''
       @ [CHR 0x27] @ '' section of the config file.''"

definition get_api_url :: "world \<Rightarrow> int \<Rightarrow> exn + string" where
  "get_api_url w limit =
     (case conf w of
        None \<Rightarrow> Inl (FileNotFoundError config_not_found_message)
      | Some file \<Rightarrow>
          (case config_read file of
             Inl e \<Rightarrow> Inl e
           | Inr config \<Rightarrow>
               (case config_get config ''api'' ''api_url'' of
                  Inl e \<Rightarrow>
                    if is_KeyError e then Inl (KeyError missing_api_url_message) else Inl e
                | Inr api_url \<Rightarrow>
                    (case format_int (int_max_str_digits w) limit of
                       Inl e \<Rightarrow> Inl e
                     | Inr digits \<Rightarrow> Inr (api_url @ digits)))))"

section \<open>The page fetcher\<close>

text \<open>
  A response has a status code and a body; the body is represented by what
  \<^verbatim>\<open>response.json()\<close> makes of it, \<open>None\<close> when it is not valid JSON. The server is a
  function of the addresses requested so far and of the address requested now; it
  answers with a response or the request fails with an exception.
\<close>

record response =
  status_code :: int
  body :: "json option"

type_synonym server = "string list \<Rightarrow> string \<Rightarrow> exn + response"

text \<open>
  \<^verbatim>\<open>requests.get(url)\<close>. The world records every address requested. An argument that
  is not a string is rendered by \<^verbatim>\<open>str\<close>, which for such a value never gives an
  address with a scheme \<^verbatim>\<open>requests\<close> can serve: the call raises and requests nothing.
\<close>

definition requests_get :: "server \<Rightarrow> world \<Rightarrow> json \<Rightarrow> world \<times> (exn + response)" where
  "requests_get srv w url =
     (case url of
        JStr u \<Rightarrow> (w\<lparr>requests := requests w @ [u]\<rparr>, srv (requests w) u)
      | _ \<Rightarrow> (w, Inl RequestException))"

definition response_json :: "response \<Rightarrow> exn + json" where
  "response_json r = (case body r of None \<Rightarrow> Inl JSONDecodeError | Some v \<Rightarrow> Inr v)"

definition http_error_message :: "int \<Rightarrow> string" where
  "http_error_message code = ''Failed to fetch data. Status code: '' @ str_int code"

text \<open>The argument \<open>JNull\<close> is Python's \<^verbatim>\<open>None\<close>, the default of \<open>api_url\<close>.\<close>

definition get_data :: "server \<Rightarrow> world \<Rightarrow> json \<Rightarrow> world \<times> (exn + json)" where
  "get_data srv w api_url =
     (case (if api_url = JNull
            then (case get_api_url w 50 of Inl e \<Rightarrow> Inl e | Inr u \<Rightarrow> Inr (JStr u))
            else Inr api_url) of
        Inl e \<Rightarrow> (w, Inl e)
      | Inr url \<Rightarrow>
          (case requests_get srv w url of
             (w1, Inl e) \<Rightarrow> (w1, Inl e)
           | (w1, Inr response) \<Rightarrow>
               if status_code response \<noteq> 200
               then (w1, Inl (HTTPError (http_error_message (status_code response))))
               else (w1, response_json response)))"

section \<open>The driver loop\<close>

definition logging :: "log_entry \<Rightarrow> world \<Rightarrow> world" where
  "logging entry w = w\<lparr>logs := logs w @ [entry]\<rparr>"

text \<open>
  The loop of \<^verbatim>\<open>main\<close> from the top of an iteration, with the current value of
  \<open>url\<close>. The \<^verbatim>\<open>except Exception\<close> clause catches every exception of the model. The
  result is the world when the loop is left, and \<open>None\<close> when it never is.
\<close>

partial_function (option) main_loop :: "server \<Rightarrow> json \<Rightarrow> world \<Rightarrow> world option" where
  "main_loop srv url w =
     (case get_data srv w url of
        (w1, Inl e) \<Rightarrow> Some (logging (LogError e) w1)
      | (w1, Inr data) \<Rightarrow>
          (case load_data w1 data of
             (w2, Inl e) \<Rightarrow> Some (logging (LogError e) w2)
           | (w2, Inr _) \<Rightarrow>
               (case py_get data ''next'' of
                  Inl e \<Rightarrow> Some (logging (LogError e) w2)
                | Inr next_url \<Rightarrow>
                    if \<not> truthy next_url then Some (logging LogNoMorePages w2)
                    else main_loop srv next_url (logging (LogFetchingNext next_url) w2))))"

definition main :: "server \<Rightarrow> world \<Rightarrow> world option" where
  "main srv w = main_loop srv JNull w"

section \<open>Observations and example inputs\<close>

text \<open>The content of the regular file at a path, if there is one.\<close>

definition file_at :: "world \<Rightarrow> string \<Rightarrow> content option" where
  "file_at w p = (case nodes w p of Some (File c) \<Rightarrow> Some c | _ \<Rightarrow> None)"

text \<open>
  A configuration with \<^verbatim>\<open>api_url = https://api.test/items/?limit=\<close> in its section
  \<^verbatim>\<open>[api]\<close>, a world with that configuration, nothing under the working directory
  \<^verbatim>\<open>/app\<close>, the date 2026-11-03 and the limits of Linux and of the interpreter, and
  pages as a server may return them.
\<close>

definition example_config :: ini where
  "example_config =
     \<lparr>defaults = [],
      sections = [(''api'', [(''api_url'', ''https://api.test/items/?limit='')])]\<rparr>"

definition example_world :: world where
  "example_world =
     \<lparr>conf = Some (ConfParsed example_config), nodes = Map.empty, cwd = ''/app'',
      now = \<lparr>year = 2026, month = 11, day = 3\<rparr>, name_max = 255, path_max = 4096,
      int_max_str_digits = 4300, requests = [], logs = []\<rparr>"

definition page_7 :: json where
  "page_7 =
     JObj [(''results'', JList [JObj [(''url'', JStr ''https://api.test/items/7/'')]]),
           (''next'', JStr ''https://api.test/items/?page=2'')]"

definition page_42 :: json where
  "page_42 =
     JObj [(''results'', JList [JObj [(''url'', JStr ''https://api.test/items/42/'')]]),
           (''next'', JNull)]"

definition page_6_7 :: json where
  "page_6_7 =
     JObj [(''results'', JList [JObj [(''url'', JStr ''https://api.test/items/6/'')],
                                JObj [(''url'', JStr ''https://api.test/items/7/'')]])]"

definition page_without_url :: json where
  "page_without_url = JObj [(''results'', JList [JObj [(''name'', JStr ''bulbasaur'')]])]"

definition page_short_url :: json where
  "page_short_url = JObj [(''results'', JList [JObj [(''url'', JStr ''7'')]])]"

definition page_without_results :: json where
  "page_without_results = JObj [(''count'', JInt 0)]"


text \<open>Configurations whose \<^verbatim>\<open>api_url\<close> holds a percent sign.\<close>

definition config_percent :: ini where
  "config_percent = \<lparr>defaults = [], sections = [(''api'', [(''api_url'', ''a%%b'')])]\<rparr>"

definition config_percent_url :: ini where
  "config_percent_url =
     \<lparr>defaults = [],
      sections = [(''api'', [(''api_url'', ''https://x/?q=a%20b&limit='')])]\<rparr>"

text \<open>The example world once \<^verbatim>\<open>data/2026-11-03\<close> has been made.\<close>

definition example_world_dirs :: world where
  "example_world_dirs =
     example_world\<lparr>nodes := [''/app/data'' \<mapsto> Dir, ''/app/data/2026-11-03'' \<mapsto> Dir]\<rparr>"


text \<open>Servers: one that answers every request with a given status, one with two pages.\<close>

definition server_status :: "int \<Rightarrow> server" where
  "server_status code = (\<lambda>history url. Inr \<lparr>status_code = code, body = Some page_42\<rparr>)"

definition server_page :: "json \<Rightarrow> server" where
  "server_page page = (\<lambda>history url. Inr \<lparr>status_code = 200, body = Some page\<rparr>)"


text \<open>Configurations without the section \<^verbatim>\<open>[api]\<close> and without the key \<^verbatim>\<open>api_url\<close>.\<close>

definition config_without_section :: ini where
  "config_without_section =
     \<lparr>defaults = [], sections = [(''database'', [(''host'', ''localhost'')])]\<rparr>"

definition config_without_key :: ini where
  "config_without_key =
     \<lparr>defaults = [], sections = [(''api'', [(''timeout'', ''30'')])]\<rparr>"

definition config_x :: ini where
  "config_x = \<lparr>defaults = [], sections = [(''api'', [(''api_url'', ''https://x/?limit='')])]\<rparr>"

lemmas example_defs = example_config_def example_world_def example_world_dirs_def page_7_def
  page_42_def page_6_7_def page_without_url_def page_short_url_def page_without_results_def

lemmas path_defs = data_dir_def folder_path_def file_path_def path_join_def

lemmas date_defs = today_def strftime_Y_m_d_def pad2_def str_nat.simps

declare str_nat.simps [simp del] unencodable.simps [simp del] fsbytes.simps [simp del]

section \<open>Facts about the operations\<close>

subsection \<open>Directory creation\<close>

lemma mkdir_parents_Inr:
  assumes "mkdir_parents w parent folder = Inr w1"
  shows "nodes w1 folder = Some Dir"
    and "file_at w1 = file_at w"
    and "w1 = w\<lparr>nodes := nodes w1\<rparr>"
    and "length folder < path_max w"
  using assms
  by (auto simp: mkdir_parents_def file_at_def fun_eq_iff
      split: option.splits node.splits if_splits)



lemma mkdir_parents_fields:
  assumes "mkdir_parents w parent folder = Inr w1"
  shows "cwd w1 = cwd w" "now w1 = now w" "name_max w1 = name_max w"
    "path_max w1 = path_max w" "conf w1 = conf w" "requests w1 = requests w"
    "logs w1 = logs w" "int_max_str_digits w1 = int_max_str_digits w"
  using assms by (auto simp: mkdir_parents_def split: option.splits node.splits if_splits)

lemma mkdir_parents_error:
  "mkdir_parents w parent folder = Inl e \<Longrightarrow>
     e \<in> {OSError ''File name too long'', FileExistsError, NotADirectoryError}"
  by (auto simp: mkdir_parents_def split: option.splits node.splits if_splits)

subsection \<open>Names and paths\<close>


lemma fsbytes_Nil [simp]: "fsbytes s = [] \<longleftrightarrow> s = []"
  by (induction s rule: fsbytes.induct) (auto simp: fsbytes.simps)



text \<open>When \<open>open_w\<close> succeeds and what it refuses.\<close>

lemma open_w_Inr_iff:
  "open_w w folder name = Inr w2 \<longleftrightarrow>
     \<not> unencodable name \<and> CHR 0x00 \<notin> set (fsbytes name)
     \<and> length (fsbytes name) \<le> name_max w
     \<and> length (folder @ ''/'' @ fsbytes name) < path_max w
     \<and> nodes w (folder @ ''/'' @ fsbytes name) \<noteq> Some Dir
     \<and> w2 = w\<lparr>nodes := (nodes w)(folder @ ''/'' @ fsbytes name \<mapsto> File (Raw []))\<rparr>"
  by (auto simp: open_w_def fsencode_def split: option.splits node.splits)

lemma open_w_error:
  "open_w w folder name = Inl e \<Longrightarrow>
     e \<in> {UnicodeEncodeError, ValueError ''embedded null byte'',
          OSError ''File name too long'', IsADirectoryError}"
  by (auto simp: open_w_def fsencode_def split: option.splits node.splits if_splits)

subsection \<open>The identifier of the last item\<close>

lemma py_get_error: "py_get x k = Inl e \<Longrightarrow> e = AttributeError"
  by (cases x) auto

lemma py_last_error: "py_last x = Inl e \<Longrightarrow> e \<in> {IndexError, KeyError ''-1'', TypeError}"
  by (cases x) (auto split: if_splits)

lemma py_split_error: "py_split x c = Inl e \<Longrightarrow> e = AttributeError"
  by (cases x) auto

lemma py_index_neg2_error: "py_index_neg2 xs = Inl e \<Longrightarrow> e = IndexError"
  by (auto simp: py_index_neg2_def split: if_splits)

lemma last_id_error:
  "last_id data = Inl e \<Longrightarrow> e \<in> {AttributeError, IndexError, KeyError ''-1'', TypeError}"
  by (auto simp: last_id_def split: sum.splits
      dest: py_get_error py_last_error py_split_error py_index_neg2_error)


lemma last_id_of_list:
  assumes "py_get data ''results'' = Inr (JList items)" "items \<noteq> []" "last items = JObj kvs"
  shows "last_id data =
           (case map_of kvs ''url'' of
              None \<Rightarrow> Inl AttributeError
            | Some (JStr u) \<Rightarrow> py_index_neg2 (split CHR ''/'' u)
            | Some _ \<Rightarrow> Inl AttributeError)"
  using assms by (auto simp: last_id_def split: option.splits json.splits)

subsection \<open>The outcomes of the page writer\<close>


lemma load_data_last_id_Inl:
  "mkdir_parents w (data_dir w) (folder_path w) = Inr w1
     \<Longrightarrow> py_get data ''results'' = Inr results \<Longrightarrow> truthy results \<Longrightarrow> last_id data = Inl e
     \<Longrightarrow> load_data w data = (w1, Inl e)"
  by (simp add: load_data_def)



lemma load_data_Inr:
  assumes "load_data w data = (w', Inr x)"
  shows "\<exists>w1 results ident. mkdir_parents w (data_dir w) (folder_path w) = Inr w1
     \<and> py_get data ''results'' = Inr results \<and> truthy results \<and> last_id data = Inr ident
     \<and> \<not> unencodable (ident @ ''.json'')
     \<and> CHR 0x00 \<notin> set (fsbytes (ident @ ''.json''))
     \<and> length (fsbytes (ident @ ''.json'')) \<le> name_max w
     \<and> length (file_path w ident) < path_max w
     \<and> nodes w1 (file_path w ident) \<noteq> Some Dir
     \<and> w' = w1\<lparr>nodes := (nodes w1)(file_path w ident \<mapsto> File (Dumped results))\<rparr>"
proof -
  from assms obtain w1 where mk: "mkdir_parents w (data_dir w) (folder_path w) = Inr w1"
    by (auto simp: load_data_def split: sum.splits)
  from assms mk obtain results where r: "py_get data ''results'' = Inr results"
    by (auto simp: load_data_def split: sum.splits)
  from assms mk r have t: "truthy results"
    by (auto simp: load_data_def split: if_splits)
  from assms mk r t obtain ident where i: "last_id data = Inr ident"
    by (auto simp: load_data_def split: sum.splits)
  from assms mk r t i obtain w2 where
    o: "open_w w1 (folder_path w) (ident @ ''.json'') = Inr w2"
    and w': "w' = json_dump w2 (file_path w ident) results"
    by (auto simp: load_data_def split: sum.splits)
  from o[unfolded open_w_Inr_iff] w' mkdir_parents_fields(3,4)[OF mk]
  have "\<not> unencodable (ident @ ''.json'')
     \<and> CHR 0x00 \<notin> set (fsbytes (ident @ ''.json''))
     \<and> length (fsbytes (ident @ ''.json'')) \<le> name_max w
     \<and> length (file_path w ident) < path_max w
     \<and> nodes w1 (file_path w ident) \<noteq> Some Dir
     \<and> w' = w1\<lparr>nodes := (nodes w1)(file_path w ident \<mapsto> File (Dumped results))\<rparr>"
    by (simp add: file_path_def json_dump_def)
  with mk r t i show ?thesis by blast
qed

lemma load_data_Inl_world:
  assumes "load_data w data = (w', Inl e)"
  shows "mkdir_parents w (data_dir w) (folder_path w) = Inl e \<and> w' = w
       \<or> mkdir_parents w (data_dir w) (folder_path w) = Inr w'"
  using assms
  by (auto simp: load_data_def split: sum.splits if_splits)

lemma load_data_Inl_files:
  assumes "load_data w data = (w', Inl e)"
  shows "file_at w' = file_at w"
  using load_data_Inl_world[OF assms] mkdir_parents_Inr(2)[of w "data_dir w" "folder_path w" w']
  by auto

lemma load_data_fields:
  assumes "load_data w data = (w', r)"
  shows "requests w' = requests w" "logs w' = logs w" "cwd w' = cwd w" "now w' = now w"
    "conf w' = conf w" "name_max w' = name_max w" "path_max w' = path_max w"
proof -
  have "requests w' = requests w \<and> logs w' = logs w \<and> cwd w' = cwd w \<and> now w' = now w
      \<and> conf w' = conf w \<and> name_max w' = name_max w \<and> path_max w' = path_max w"
  proof (cases r)
    case (Inl e)
    from load_data_Inl_world[OF assms[unfolded Inl]] show ?thesis
      using mkdir_parents_fields[of w "data_dir w" "folder_path w" w'] by auto
  next
    case r: (Inr x)
    from load_data_Inr[OF assms[unfolded r]] obtain w1 p c where
      "mkdir_parents w (data_dir w) (folder_path w) = Inr w1"
      "w' = w1\<lparr>nodes := (nodes w1)(p \<mapsto> File c)\<rparr>"
      by blast
    with mkdir_parents_fields[of w "data_dir w" "folder_path w" w1] show ?thesis
      by simp
  qed
  then show "requests w' = requests w" "logs w' = logs w" "cwd w' = cwd w" "now w' = now w"
    "conf w' = conf w" "name_max w' = name_max w" "path_max w' = path_max w"
    by simp_all
qed

text \<open>The example world: its date, making the dated directory, and its file paths.\<close>

lemma example_today: "today example_world = ''2026-11-03''"
  by (simp add: today_def strftime_Y_m_d_def pad2_def str_nat.simps example_world_def)

lemma example_folder_path: "folder_path example_world = ''/app/data/2026-11-03''"
  by (simp add: folder_path_def data_dir_def path_join_def example_today)
    (simp add: example_world_def)

lemma example_mkdir:
  "mkdir_parents example_world (data_dir example_world) (folder_path example_world)
     = Inr example_world_dirs"
  unfolding example_folder_path
  by (simp add: mkdir_parents_def example_defs data_dir_def path_join_def)






section \<open>The page writer: claims\<close>




text \<open>
  Claim C9. For a response whose \<open>results\<close> is a non-empty list and whose last item has
  no \<open>url\<close>, or has under \<open>url\<close> a string of fewer than two segments, \<open>load_data\<close>
  fails with \<open>AttributeError\<close> in the first case and \<open>IndexError\<close> in the second:
  neither is one of the errors the program raises itself (\<open>FileNotFoundError\<close>,
  \<open>KeyError\<close>, \<open>HTTPError\<close>, \<open>ValueError\<close>) nor \<open>JSONDecodeError\<close>. No file is
  written.
\<close>

theorem load_data_malformed_url_fails:
  assumes "py_get data ''results'' = Inr (JList items)" and "items \<noteq> []"
    and "last items = JObj kvs"
    and "map_of kvs ''url'' = None \<or>
         (\<exists>u. map_of kvs ''url'' = Some (JStr u) \<and> length (split CHR ''/'' u) < 2)"
    and "mkdir_parents w (data_dir w) (folder_path w) = Inr w1"
  shows "load_data w data =
           (w1, Inl (if map_of kvs ''url'' = None then AttributeError else IndexError))
       \<and> file_at w1 = file_at w"
proof -
  have id: "last_id data =
      Inl (if map_of kvs ''url'' = None then AttributeError else IndexError)"
    using assms(1-4) by (auto simp add: last_id_of_list py_index_neg2_def)
  have truthy: "truthy (JList items)"
    using assms(2) by simp
  have "load_data w data =
      (w1, Inl (if map_of kvs ''url'' = None then AttributeError else IndexError))"
    using assms(5) assms(1) truthy id by (rule load_data_last_id_Inl)
  moreover have "file_at w1 = file_at w"
    using assms(5) by (rule mkdir_parents_Inr(2))
  ultimately show ?thesis by blast
qed

theorem load_data_malformed_url_fails_witness:
  "load_data example_world page_without_url = (example_world_dirs, Inl AttributeError)
   \<and> load_data example_world page_short_url = (example_world_dirs, Inl IndexError)
   \<and> file_at example_world_dirs = file_at example_world"
proof -
  have a1: "py_get page_without_url ''results'' = Inr (JList [JObj [(''name'', JStr ''bulbasaur'')]])"
    by (simp add: page_without_url_def)
  have a2: "[JObj [(''name'', JStr ''bulbasaur'')]] \<noteq> []"
    by simp
  have a3: "last [JObj [(''name'', JStr ''bulbasaur'')]] = JObj [(''name'', JStr ''bulbasaur'')]"
    by simp
  have a4: "map_of [(''name'', JStr ''bulbasaur'')] ''url'' = None \<or>
      (\<exists>u. map_of [(''name'', JStr ''bulbasaur'')] ''url'' = Some (JStr u)
           \<and> length (split CHR ''/'' u) < 2)"
    by simp
  have b1: "py_get page_short_url ''results'' = Inr (JList [JObj [(''url'', JStr ''7'')]])"
    by (simp add: page_short_url_def)
  have b2: "[JObj [(''url'', JStr ''7'')]] \<noteq> []"
    by simp
  have b3: "last [JObj [(''url'', JStr ''7'')]] = JObj [(''url'', JStr ''7'')]"
    by simp
  have b4: "map_of [(''url'', JStr ''7'')] ''url'' = None \<or>
      (\<exists>u. map_of [(''url'', JStr ''7'')] ''url'' = Some (JStr u)
           \<and> length (split CHR ''/'' u) < 2)"
    by simp
  from load_data_malformed_url_fails [OF a1 a2 a3 a4 example_mkdir]
    load_data_malformed_url_fails [OF b1 b2 b3 b4 example_mkdir]
  show ?thesis by simp
qed

text \<open>
  Claim C10. Whenever \<open>load_data\<close> raises the \<open>ValueError\<close> of missing or empty
  results, the directory creation of that call has succeeded before and the dated
  directory \<^verbatim>\<open>data/<date>\<close> exists in the world the call leaves: the directory is made
  before the results are checked, so the call changes the file system although it fails.
\<close>

theorem load_data_empty_results_leaves_directory:
  assumes "load_data w data = (w', Inl (ValueError msg))"
  shows "mkdir_parents w (data_dir w) (folder_path w) = Inr w'
       \<and> nodes w' (folder_path w) = Some Dir"
proof -
  from assms have "mkdir_parents w (data_dir w) (folder_path w) = Inr w'"
    by (auto simp: load_data_def split: sum.splits if_splits
        dest: py_get_error last_id_error mkdir_parents_error open_w_error)
  then show ?thesis by (simp add: mkdir_parents_Inr(1))
qed

theorem load_data_empty_results_leaves_directory_witness:
  "load_data example_world page_without_results =
     (example_world_dirs, Inl (ValueError empty_results_message))
   \<and> nodes example_world ''/app/data/2026-11-03'' = None
   \<and> nodes example_world_dirs ''/app/data/2026-11-03'' = Some Dir"
proof -
  have run: "load_data example_world page_without_results =
      (example_world_dirs, Inl (ValueError empty_results_message))"
    by (simp add: load_data_def example_mkdir page_without_results_def)
  from load_data_empty_results_leaves_directory [OF run] run show ?thesis
    unfolding example_folder_path by (simp add: example_world_def)
qed






section \<open>The configuration reader, the fetcher and the loop: claims\<close>

lemma requests_get_world:
  "requests_get srv w url = (w1, r) \<Longrightarrow>
     nodes w1 = nodes w \<and> logs w1 = logs w
     \<and> (requests w1 = requests w \<or> (\<exists>u. url = JStr u \<and> requests w1 = requests w @ [u]))"
  by (cases url) (auto simp: requests_get_def)

lemma get_data_world:
  assumes "get_data srv w api_url = (w1, r)"
  shows "nodes w1 = nodes w \<and> logs w1 = logs w
     \<and> (requests w1 = requests w \<or> (\<exists>u. requests w1 = requests w @ [u]))"
  using assms
  by (auto simp: get_data_def split: sum.splits if_splits prod.splits dest!: requests_get_world)

lemma interpolate_loop_plain:
  "CHR ''%'' \<notin> set rest \<Longrightarrow> interpolate_loop m depth rest accum = Inr (accum @ rest)"
  by (subst interpolate_loop.simps) simp

text \<open>
  A value without a percent sign, found in the section or in the defaults, is returned
  as it is.
\<close>

lemma config_get_plain:
  assumes "map_of (sections config) section = Some sectiondict"
    and "(case map_of sectiondict (lower option) of
            Some v \<Rightarrow> Some v
          | None \<Rightarrow> map_of (defaults config) (lower option)) = Some v"
    and "CHR ''%'' \<notin> set v"
  shows "config_get config section option = Inr v"
  using assms
  by (simp add: config_get_def interpolate_some.simps interpolate_loop_plain
      MAX_INTERPOLATION_DEPTH_def)

lemma lower_api_url: "lower ''api_url'' = ''api_url''"
  by (simp add: lower_def lower_char_def)

text \<open>An integer within the limit of digits is rendered; a power of ten has its digits.\<close>

lemma format_int_Inr:
  "digits = 0 \<or> length (str_nat (nat \<bar>i\<bar>)) \<le> digits \<Longrightarrow> format_int digits i = Inr (str_int i)"
  by (auto simp: format_int_def)

lemma format_int_50: "format_int 4300 50 = Inr ''50''"
  by (simp add: format_int_def str_int_def str_nat.simps)

lemma length_str_nat_power10: "length (str_nat (10 ^ k)) = Suc k"
proof (induction k)
  case 0
  show ?case by (simp add: str_nat.simps)
next
  case (Suc k)
  have "\<not> (10::nat) ^ Suc k < 10"
    by simp
  then have "str_nat (10 ^ Suc k) =
      str_nat (10 ^ Suc k div 10) @ [''0123456789'' ! (10 ^ Suc k mod 10)]"
    by (subst str_nat.simps) (simp only: if_False)
  with Suc show ?case by simp
qed

lemma format_int_power10:
  assumes "digits \<noteq> 0" and "digits \<le> k"
  shows "format_int digits (10 ^ k) = Inl (ValueError (int_digits_message digits))"
proof -
  have n: "nat \<bar>(10::int) ^ k\<bar> = 10 ^ k"
    by (simp add: nat_power_eq)
  show ?thesis
    unfolding format_int_def n length_str_nat_power10 using assms by simp
qed

text \<open>The first address of the example world.\<close>

lemma example_get_api_url:
  "get_api_url example_world 50 = Inr ''https://api.test/items/?limit=50''"
  by (simp add: get_api_url_def example_world_def example_config_def config_get_plain
      lower_api_url format_int_50)

lemma example_requests: "requests example_world = []"
  by (simp add: example_world_def)

text \<open>
  Claim C2. When the request is answered by a response, \<open>get_data\<close> raises
  \<open>HTTPError\<close> with the message \<^verbatim>\<open>Failed to fetch data. Status code: <code>\<close> for
  every status code other than 200, the codes 201 and 204 included, and on 200 it returns
  what \<^verbatim>\<open>response.json()\<close> gives: the parsed body, or \<open>JSONDecodeError\<close>.
\<close>

theorem get_data_status_strict:
  assumes "api_url = JStr u \<or> (api_url = JNull \<and> get_api_url w 50 = Inr u)"
    and "srv (requests w) u = Inr r"
  shows "(status_code r \<noteq> 200 \<longrightarrow>
            get_data srv w api_url =
              (w\<lparr>requests := requests w @ [u]\<rparr>,
               Inl (HTTPError
                 (''Failed to fetch data. Status code: '' @ str_int (status_code r)))))
       \<and> (status_code r = 200 \<longrightarrow>
            get_data srv w api_url =
              (w\<lparr>requests := requests w @ [u]\<rparr>,
               case body r of None \<Rightarrow> Inl JSONDecodeError | Some v \<Rightarrow> Inr v))"
  using assms
  by (auto simp: get_data_def requests_get_def http_error_message_def response_json_def)

theorem get_data_status_strict_witness:
  "get_data (server_status 201) example_world (JStr ''https://api.test/p'') =
     (example_world\<lparr>requests := [''https://api.test/p'']\<rparr>,
      Inl (HTTPError ''Failed to fetch data. Status code: 201''))
   \<and> get_data (server_status 204) example_world (JStr ''https://api.test/p'') =
     (example_world\<lparr>requests := [''https://api.test/p'']\<rparr>,
      Inl (HTTPError ''Failed to fetch data. Status code: 204''))
   \<and> get_data (server_status 404) example_world (JStr ''https://api.test/p'') =
     (example_world\<lparr>requests := [''https://api.test/p'']\<rparr>,
      Inl (HTTPError ''Failed to fetch data. Status code: 404''))
   \<and> get_data (server_status 500) example_world JNull =
     (example_world\<lparr>requests := [''https://api.test/items/?limit=50'']\<rparr>,
      Inl (HTTPError ''Failed to fetch data. Status code: 500''))
   \<and> get_data (server_status 200) example_world JNull =
     (example_world\<lparr>requests := [''https://api.test/items/?limit=50'']\<rparr>, Inr page_42)"
proof -
  have u: "JStr ''https://api.test/p'' = JStr ''https://api.test/p'' \<or>
      (JStr ''https://api.test/p'' = JNull
       \<and> get_api_url example_world 50 = Inr ''https://api.test/p'')"
    by simp
  have n: "JNull = JStr ''https://api.test/items/?limit=50'' \<or>
      (JNull = JNull \<and> get_api_url example_world 50 = Inr ''https://api.test/items/?limit=50'')"
    by (simp add: example_get_api_url)
  have s: "server_status code (requests example_world) a =
      Inr \<lparr>status_code = code, body = Some page_42\<rparr>" for code a
    by (simp add: server_status_def)
  have e: "requests example_world = []"
    by (simp add: example_world_def)
  note t = get_data_status_strict
    [where w = example_world and r = "\<lparr>status_code = code, body = Some page_42\<rparr>"
       and srv = "server_status code" for code, OF _ s]
  from t [of _ _ 201, OF u] t [of _ _ 204, OF u] t [of _ _ 404, OF u] t [of _ _ 500, OF n]
    t [of _ _ 200, OF n]
  show ?thesis
    by (simp add: e str_int_def str_nat.simps)
qed

text \<open>
  Claim C3, amended. When the configuration file is read and the value of \<open>api_url\<close>,
  in the section \<^verbatim>\<open>[api]\<close> or inherited from the defaults, is a string \<open>s\<close> without a
  percent sign, \<open>get_api_url\<close> returns \<open>s\<close> followed by the decimal rendering of
  \<open>limit\<close> and nothing else; with \<^verbatim>\<open>api_url = https://x/?limit=\<close> and the limit 50
  that is \<^verbatim>\<open>https://x/?limit=50\<close>. A value with a percent sign goes through the
  interpolation of \<^verbatim>\<open>config.get\<close> first: whenever that gives a string, the function
  returns this string followed by the decimal rendering of \<open>limit\<close>. In both cases
  \<open>limit\<close> has no more digits than the interpreter renders.
\<close>

theorem get_api_url_concatenates:
  assumes "conf w = Some file" and "config_read file = Inr config"
    and "int_max_str_digits w = 0
         \<or> length (str_nat (nat \<bar>limit\<bar>)) \<le> int_max_str_digits w"
  shows "(\<forall>sectiondict s.
            map_of (sections config) ''api'' = Some sectiondict
            \<and> (case map_of sectiondict ''api_url'' of
                  Some v \<Rightarrow> Some v
                | None \<Rightarrow> map_of (defaults config) ''api_url'') = Some s
            \<and> CHR ''%'' \<notin> set s
            \<longrightarrow> get_api_url w limit = Inr (s @ str_int limit))
       \<and> (\<forall>s. config_get config ''api'' ''api_url'' = Inr s
            \<longrightarrow> get_api_url w limit = Inr (s @ str_int limit))"
proof -
  have b: "get_api_url w limit = Inr (s @ str_int limit)"
    if "config_get config ''api'' ''api_url'' = Inr s" for s
    using assms(1,2) that by (simp add: get_api_url_def format_int_Inr[OF assms(3)])
  have a: "get_api_url w limit = Inr (s @ str_int limit)"
    if "map_of (sections config) ''api'' = Some sectiondict"
      and "(case map_of sectiondict ''api_url'' of
              Some v \<Rightarrow> Some v
            | None \<Rightarrow> map_of (defaults config) ''api_url'') = Some s"
      and "CHR ''%'' \<notin> set s" for sectiondict s
  proof -
    have "config_get config ''api'' ''api_url'' = Inr s"
      by (rule config_get_plain[OF that(1) _ that(3)]) (simp only: lower_api_url that(2))
    then show ?thesis by (rule b)
  qed
  from a b show ?thesis by blast
qed

theorem get_api_url_concatenates_witness:
  "get_api_url (example_world\<lparr>conf := Some (ConfParsed config_x)\<rparr>) 50
     = Inr ''https://x/?limit=50''"
proof -
  have 1: "conf (example_world\<lparr>conf := Some (ConfParsed config_x)\<rparr>) = Some (ConfParsed config_x)"
    by simp
  have 2: "config_read (ConfParsed config_x) = Inr config_x"
    by simp
  have 3: "map_of (sections config_x) ''api'' = Some [(''api_url'', ''https://x/?limit='')]
      \<and> (case map_of [(''api_url'', ''https://x/?limit='')] ''api_url'' of
            Some v \<Rightarrow> Some v
          | None \<Rightarrow> map_of (defaults config_x) ''api_url'') = Some ''https://x/?limit=''
      \<and> CHR ''%'' \<notin> set ''https://x/?limit=''"
    by (simp add: config_x_def)
  have 4: "int_max_str_digits (example_world\<lparr>conf := Some (ConfParsed config_x)\<rparr>) = 0
      \<or> length (str_nat (nat \<bar>50\<bar>))
          \<le> int_max_str_digits (example_world\<lparr>conf := Some (ConfParsed config_x)\<rparr>)"
    by (simp add: example_world_def str_nat.simps)
  from get_api_url_concatenates [OF 1 2 4] 3
  have "get_api_url (example_world\<lparr>conf := Some (ConfParsed config_x)\<rparr>) 50
      = Inr (''https://x/?limit='' @ str_int 50)"
    by blast
  then show ?thesis
    by (simp add: str_int_def str_nat.simps)
qed

text \<open>
  Claim C3 as stated fails: with the value \<^verbatim>\<open>a%%b\<close> the function returns
  \<^verbatim>\<open>a%b50\<close>, not the value followed by 50, with the value
  \<^verbatim>\<open>https://x/?q=a%20b&limit=\<close> it raises \<open>InterpolationSyntaxError\<close>, and with the
  value \<^verbatim>\<open>https://x/?limit=\<close> and a limit of 4301 digits it raises \<open>ValueError\<close>.
\<close>

theorem get_api_url_percent_counterexample:
  "map_of (sections config_percent) ''api'' = Some [(''api_url'', ''a%%b'')]
   \<and> get_api_url (example_world\<lparr>conf := Some (ConfParsed config_percent)\<rparr>) 50
       = Inr ''a%b50''
   \<and> ''a%%b'' @ str_int 50 = ''a%%b50''
   \<and> map_of (sections config_percent_url) ''api''
       = Some [(''api_url'', ''https://x/?q=a%20b&limit='')]
   \<and> get_api_url (example_world\<lparr>conf := Some (ConfParsed config_percent_url)\<rparr>) 50
       = Inl InterpolationSyntaxError
   \<and> get_api_url (example_world\<lparr>conf := Some (ConfParsed config_x)\<rparr>) (10 ^ 4300)
       = Inl (ValueError (int_digits_message 4300))"
proof -
  have 1: "config_get config_percent ''api'' ''api_url'' = Inr ''a%b''"
    by (simp add: config_get_def config_percent_def lower_api_url interpolate_some.simps
        interpolate_loop.simps MAX_INTERPOLATION_DEPTH_def)
  have 2: "config_get config_percent_url ''api'' ''api_url'' = Inl InterpolationSyntaxError"
    by (simp add: config_get_def config_percent_url_def lower_api_url interpolate_some.simps
        interpolate_loop.simps MAX_INTERPOLATION_DEPTH_def)
  have 3: "str_int 50 = ''50''"
    by (simp add: str_int_def str_nat.simps)
  have 4: "config_get config_x ''api'' ''api_url'' = Inr ''https://x/?limit=''"
    by (rule config_get_plain[of _ _ "[(''api_url'', ''https://x/?limit='')]"])
      (simp_all add: config_x_def lower_api_url)
  have d: "int_max_str_digits (example_world\<lparr>conf := c\<rparr>) = 4300" for c
    by (simp add: example_world_def)
  have a: "map_of (sections config_percent) ''api'' = Some [(''api_url'', ''a%%b'')]"
    by (simp add: config_percent_def)
  have b: "get_api_url (example_world\<lparr>conf := Some (ConfParsed config_percent)\<rparr>) 50
      = Inr ''a%b50''"
    by (simp add: get_api_url_def 1 d format_int_50)
  have c: "''a%%b'' @ str_int 50 = ''a%%b50''"
    by (simp add: 3)
  have e: "map_of (sections config_percent_url) ''api''
      = Some [(''api_url'', ''https://x/?q=a%20b&limit='')]"
    by (simp add: config_percent_url_def)
  have f: "get_api_url (example_world\<lparr>conf := Some (ConfParsed config_percent_url)\<rparr>) 50
      = Inl InterpolationSyntaxError"
    by (simp add: get_api_url_def 2)
  have big: "get_api_url (example_world\<lparr>conf := Some (ConfParsed config_x)\<rparr>) (10 ^ k)
      = Inl (ValueError (int_digits_message 4300))" if "4300 \<le> k" for k :: nat
    using that by (simp add: get_api_url_def 4 d format_int_power10)
  have g: "get_api_url (example_world\<lparr>conf := Some (ConfParsed config_x)\<rparr>) (10 ^ 4300)
      = Inl (ValueError (int_digits_message 4300))"
    by (rule big) simp
  from a b c e f g show ?thesis
    by (intro conjI)
qed

text \<open>
  Claim C4. The claim asks for \<open>KeyError\<close> when the file lacks the section or the key.
  On a file without the section \<^verbatim>\<open>[api]\<close> the function raises \<open>NoSectionError\<close>, and
  on a file whose section lacks \<open>api_url\<close> it raises \<open>NoOptionError\<close>: neither is a
  \<open>KeyError\<close>, so the \<^verbatim>\<open>except KeyError\<close> clause lets both pass.
\<close>

theorem get_api_url_missing_key_not_KeyError:
  "get_api_url (example_world\<lparr>conf := Some (ConfParsed config_without_section)\<rparr>) 50
     = Inl (NoSectionError ''api'')
   \<and> get_api_url (example_world\<lparr>conf := Some (ConfParsed config_without_key)\<rparr>) 50
     = Inl (NoOptionError ''api_url'' ''api'')"
  by (simp add: get_api_url_def config_get_def config_without_section_def
      config_without_key_def lower_api_url)

text \<open>The same for every configuration that lacks the section or the key.\<close>

lemma get_api_url_missing_key:
  assumes "conf w = Some (ConfParsed config)"
    and "map_of (sections config) ''api'' = None \<or>
         (\<exists>sd. map_of (sections config) ''api'' = Some sd \<and> map_of sd ''api_url'' = None
               \<and> map_of (defaults config) ''api_url'' = None)"
  shows "get_api_url w limit = Inl (NoSectionError ''api'') \<or>
         get_api_url w limit = Inl (NoOptionError ''api_url'' ''api'')"
  using assms
  by (auto simp: get_api_url_def config_get_def lower_api_url)

text \<open>The file that does not exist: \<open>FileNotFoundError\<close>, as the claim says.\<close>

lemma get_api_url_config_missing:
  "conf w = None \<Longrightarrow> get_api_url w limit = Inl (FileNotFoundError config_not_found_message)"
  by (simp add: get_api_url_def)

text \<open>
  Claim C7. From the top of any iteration: when the fetch raises, the loop ends with
  the error logged, with no file system change and at most the one request of this
  fetch; when the fetch succeeds and the writer raises, the loop ends with the error
  logged, no request after the fetch and no file changed.
\<close>

theorem main_loop_stops_on_error:
  "(get_data srv w url = (w1, Inl e) \<longrightarrow>
      main_loop srv url w = Some (logging (LogError e) w1)
      \<and> logs (logging (LogError e) w1) = logs w @ [LogError e]
      \<and> nodes (logging (LogError e) w1) = nodes w
      \<and> (requests (logging (LogError e) w1) = requests w
          \<or> (\<exists>u. requests (logging (LogError e) w1) = requests w @ [u])))
   \<and> (get_data srv w url = (w1, Inr data) \<and> load_data w1 data = (w2, Inl e) \<longrightarrow>
      main_loop srv url w = Some (logging (LogError e) w2)
      \<and> logs (logging (LogError e) w2) = logs w @ [LogError e]
      \<and> requests (logging (LogError e) w2) = requests w1
      \<and> file_at (logging (LogError e) w2) = file_at w)"
proof -
  have g: "logs (logging x v) = logs v @ [x]" "nodes (logging x v) = nodes v"
    "requests (logging x v) = requests v" "file_at (logging x v) = file_at v" for x v
    by (simp_all add: logging_def file_at_def fun_eq_iff)
  have a: "main_loop srv url w = Some (logging (LogError e) w1)
      \<and> logs (logging (LogError e) w1) = logs w @ [LogError e]
      \<and> nodes (logging (LogError e) w1) = nodes w
      \<and> (requests (logging (LogError e) w1) = requests w
          \<or> (\<exists>u. requests (logging (LogError e) w1) = requests w @ [u]))"
    if h: "get_data srv w url = (w1, Inl e)"
  proof -
    have "main_loop srv url w = Some (logging (LogError e) w1)"
      using h by (subst main_loop.simps) simp
    with get_data_world[OF h] show ?thesis
      by (simp add: g)
  qed
  have b: "main_loop srv url w = Some (logging (LogError e) w2)
      \<and> logs (logging (LogError e) w2) = logs w @ [LogError e]
      \<and> requests (logging (LogError e) w2) = requests w1
      \<and> file_at (logging (LogError e) w2) = file_at w"
    if h1: "get_data srv w url = (w1, Inr data)" and h2: "load_data w1 data = (w2, Inl e)"
  proof -
    have "main_loop srv url w = Some (logging (LogError e) w2)"
      using h1 h2 by (subst main_loop.simps) simp
    moreover have "file_at w1 = file_at w"
      using get_data_world[OF h1] by (simp add: file_at_def fun_eq_iff)
    ultimately show ?thesis
      using get_data_world[OF h1] load_data_fields(1,2)[OF h2] load_data_Inl_files[OF h2]
      by (simp add: g)
  qed
  from a b show ?thesis by blast
qed

theorem main_loop_stops_on_error_witness:
  "main (server_status 500) example_world =
     Some (example_world\<lparr>requests := [''https://api.test/items/?limit=50''],
        logs := [LogError (HTTPError ''Failed to fetch data. Status code: 500'')]\<rparr>)
   \<and> main (server_page page_without_url) example_world =
     Some (example_world\<lparr>nodes := [''/app/data'' \<mapsto> Dir, ''/app/data/2026-11-03'' \<mapsto> Dir],
        requests := [''https://api.test/items/?limit=50''],
        logs := [LogError AttributeError]\<rparr>)"
proof -
  let ?w1 = "example_world\<lparr>requests := [''https://api.test/items/?limit=50'']\<rparr>"
  let ?w2 = "example_world\<lparr>nodes := [''/app/data'' \<mapsto> Dir, ''/app/data/2026-11-03'' \<mapsto> Dir],
        requests := [''https://api.test/items/?limit=50'']\<rparr>"
  have fetch500: "get_data (server_status 500) example_world JNull =
      (?w1, Inl (HTTPError ''Failed to fetch data. Status code: 500''))"
    by (simp add: get_data_def example_get_api_url requests_get_def server_status_def
        http_error_message_def str_int_def str_nat.simps example_requests)
  have fetch: "get_data (server_page page_without_url) example_world JNull =
      (?w1, Inr page_without_url)"
    by (simp add: get_data_def example_get_api_url requests_get_def server_page_def
        response_json_def example_requests)
  have mk: "mkdir_parents ?w1 (data_dir ?w1) (folder_path ?w1) = Inr ?w2"
    by (simp add: mkdir_parents_def example_world_def path_defs date_defs)
  have "py_get page_without_url ''results'' = Inr (JList [JObj [(''name'', JStr ''bulbasaur'')]])"
    by (simp add: page_without_url_def)
  moreover have "truthy (JList [JObj [(''name'', JStr ''bulbasaur'')]])"
    by simp
  moreover have "last_id page_without_url = Inl AttributeError"
    by (simp add: last_id_def page_without_url_def)
  ultimately have load: "load_data ?w1 page_without_url = (?w2, Inl AttributeError)"
    using mk by (simp add: load_data_last_id_Inl)
  from main_loop_stops_on_error
    [where srv = "server_status 500" and w = example_world and url = JNull and ?w1.0 = ?w1
      and e = "HTTPError ''Failed to fetch data. Status code: 500''"]
    fetch500
  have 1: "main (server_status 500) example_world =
     Some (example_world\<lparr>requests := [''https://api.test/items/?limit=50''],
        logs := [LogError (HTTPError ''Failed to fetch data. Status code: 500'')]\<rparr>)"
    by (simp add: main_def logging_def example_world_def)
  from main_loop_stops_on_error
    [where srv = "server_page page_without_url" and w = example_world and url = JNull
      and ?w1.0 = ?w1 and data = page_without_url and ?w2.0 = ?w2 and e = AttributeError]
    fetch load
  have 2: "main (server_page page_without_url) example_world =
     Some (example_world\<lparr>nodes := [''/app/data'' \<mapsto> Dir, ''/app/data/2026-11-03'' \<mapsto> Dir],
        requests := [''https://api.test/items/?limit=50''],
        logs := [LogError AttributeError]\<rparr>)"
    by (simp add: main_def logging_def example_world_def)
  from 1 2 show ?thesis ..
qed



end
